theory Spec2Isabelle
  imports Main "HOL-Library.Word"
begin

unbundle bit_operations_syntax

section \<open>Go values, panics and JSON\<close>

text \<open>
  The repository is one file, \<^verbatim>\<open>main.go\<close>: a gin router whose handlers talk to a MySQL
  database through gorm, hash passwords with bcrypt and issue and check bearer tokens with
  jwt-go. The handlers are embedded as functions on an explicit request context and an
  explicit database; a Go panic is the left summand of the result.
\<close>

type_synonym uint64 = "64 word"

type_synonym Time = int \<comment> \<open>seconds since the Unix epoch, as \<^verbatim>\<open>time.Time.Unix()\<close> reads it\<close>

datatype panic =
    Panic string \<comment> \<open>\<^verbatim>\<open>panic("...")\<close> and \<^verbatim>\<open>panic(err)\<close>\<close>
  | IndexOutOfRange nat nat \<comment> \<open>index out of range [i] with length n\<close>
  | NilDereference \<comment> \<open>method call on a nil interface value\<close>

datatype json =
    JNull
  | JBool bool
  | JNum int
  | JStr string
  | JArr "json list"
  | JObj "(string \<times> json) list"

text \<open>\<^verbatim>\<open>strings.Split(s, sep)\<close> for a one-character separator: every occurrence of the
  separator cuts, so the empty string gives one empty part.\<close>

fun Split :: "string \<Rightarrow> char \<Rightarrow> string list" where
  "Split [] sep = [[]]"
| "Split (c # cs) sep =
     (if c = sep then [] # Split cs sep
      else (case Split cs sep of [] \<Rightarrow> [[c]] | p # ps \<Rightarrow> (c # p) # ps))"

text \<open>Indexing a slice: Go panics when the index is not below the length.\<close>

definition elem_at :: "'a list \<Rightarrow> nat \<Rightarrow> panic + 'a" where
  "elem_at xs i = (if i < length xs then Inr (xs ! i) else Inl (IndexOutOfRange i (length xs)))"

text \<open>\<^verbatim>\<open>strings.ToLower\<close> on the ASCII letters.\<close>

definition ToLower :: "string \<Rightarrow> string" where
  "ToLower s = map (\<lambda>c. let n = (of_char c :: nat) in if 65 \<le> n \<and> n \<le> 90 then char_of (n + 32) else c) s"

definition HasPrefix :: "string \<Rightarrow> string \<Rightarrow> bool" where
  "HasPrefix s p = (take (length p) s = p)"

section \<open>The data model of main.go\<close>

record User =
  ID :: uint64
  Username :: string
  Email :: string
  Password :: string
  Bio :: string
  Image :: string
  EmailVerifiedAt :: Time
  CreatedAt :: Time
  UpdatedAt :: Time

record LoginUser =
  Email :: string
  Password :: string

record LoginRequest =
  Data :: LoginUser

record UserResource =
  Username :: string
  Email :: string
  Bio :: string
  Image :: string
  Token :: string

record Profile =
  Username :: string
  Bio :: string
  Image :: string
  Following :: bool

record Tag =
  ID :: uint64
  Name :: string
  Slug :: string
  CreatedAt :: Time
  UpdatedAt :: Time

record Article =
  ID :: uint64
  Title :: string
  Body :: string
  Description :: string
  Slug :: string
  UserID :: uint64
  User :: User
  Tags :: "Tag list"
  Favoriters :: "User list"
  CreatedAt :: Time
  UpdatedAt :: Time

record ArticleResource =
  Title :: string
  Body :: string
  Description :: string
  Slug :: string
  User :: User
  Tags :: "string list"
  Favorited :: bool
  FavoritesCount :: uint64
  CreatedAt :: string
  UpdatedAt :: string

text \<open>The zero values Go gives to \<^verbatim>\<open>var user User\<close>.\<close>

definition zero_User :: User where
  "zero_User = \<lparr>User.ID = 0, Username = [], Email = [], Password = [], Bio = [], Image = [],
     EmailVerifiedAt = 0, CreatedAt = 0, UpdatedAt = 0\<rparr>"

text \<open>
  The database: the tables the handlers read. \<^verbatim>\<open>followers\<close> holds rows
  \<open>(user_id, follower_id)\<close>, \<^verbatim>\<open>favoriters\<close> rows \<open>(article_id, user_id)\<close>,
  \<^verbatim>\<open>article_tag\<close> rows \<open>(article_id, tag_id)\<close>. The \<^verbatim>\<open>User\<close>, \<^verbatim>\<open>Tags\<close> and
  \<^verbatim>\<open>Favoriters\<close> fields of a stored article row are filled by \<^verbatim>\<open>Preload\<close> only.
\<close>

record DB =
  tbl_users :: "User list"
  tbl_articles :: "Article list"
  tbl_tags :: "Tag list"
  tbl_article_tag :: "(uint64 \<times> uint64) list"
  tbl_followers :: "(uint64 \<times> uint64) list"
  tbl_favoriters :: "(uint64 \<times> uint64) list"

text \<open>A statement built by \<^verbatim>\<open>db.Raw(sql, values...)\<close>.\<close>

record Statement =
  SQL :: string
  Vars :: "uint64 list"

section \<open>jwt-go values\<close>

record StandardClaims =
  Audience :: string
  ExpiresAt :: int
  Id :: string
  IssuedAt :: int
  Issuer :: string
  NotBefore :: int
  Subject :: string

text \<open>\<^verbatim>\<open>MyCustomClaims\<close>, declared inside \<^verbatim>\<open>authApi\<close>: the standard claims and \<^verbatim>\<open>user_id\<close>.\<close>

record MyCustomClaims = StandardClaims +
  UserId :: uint64

definition zero_MyCustomClaims :: MyCustomClaims where
  "zero_MyCustomClaims = \<lparr>Audience = [], ExpiresAt = 0, Id = [], IssuedAt = 0, Issuer = [],
     NotBefore = 0, Subject = [], UserId = 0\<rparr>"

text \<open>
  \<^verbatim>\<open>jwt.Token\<close>. A signing method is represented by the name it is registered under; the
  empty name is the nil method (no method is registered under it). The header map is
  \<open>None\<close> while it is nil. The claims are \<^verbatim>\<open>jwt.MapClaims\<close> at issuance; at validation they
  are the nil interface (\<open>None\<close>) or the \<^verbatim>\<open>MyCustomClaims\<close> the parser was given, hence the
  parameter.
\<close>

record 'c Token =
  Raw :: string
  Method :: string
  Header :: "(string \<times> json) list option"
  Claims :: 'c
  Signature :: string
  Valid :: bool

type_synonym ParsedToken = "MyCustomClaims option Token"

record ValidationError =
  Inner :: "string option" \<comment> \<open>the wrapped error, by its \<^verbatim>\<open>Error()\<close> text\<close>
  errorText :: string \<comment> \<open>the field \<^verbatim>\<open>text\<close>\<close>
  Errors :: "32 word"

definition ValidationErrorMalformed :: "32 word" where "ValidationErrorMalformed = 1"
definition ValidationErrorUnverifiable :: "32 word" where "ValidationErrorUnverifiable = 2"
definition ValidationErrorSignatureInvalid :: "32 word" where "ValidationErrorSignatureInvalid = 4"
definition ValidationErrorExpired :: "32 word" where "ValidationErrorExpired = 16"
definition ValidationErrorIssuedAt :: "32 word" where "ValidationErrorIssuedAt = 32"
definition ValidationErrorNotValidYet :: "32 word" where "ValidationErrorNotValidYet = 128"

definition NewValidationError :: "string \<Rightarrow> 32 word \<Rightarrow> ValidationError" where
  "NewValidationError txt errorFlags = \<lparr>Inner = None, errorText = txt, Errors = errorFlags\<rparr>"

text \<open>\<^verbatim>\<open>ValidationError.Error()\<close>: the wrapped error's text first.\<close>

definition Error :: "ValidationError \<Rightarrow> string" where
  "Error e = (case Inner e of Some inner \<Rightarrow> inner
              | None \<Rightarrow> if errorText e \<noteq> [] then errorText e else ''token is invalid'')"

section \<open>The platform: everything main.go calls and does not define\<close>

text \<open>
  The environment, the clock, the cryptographic primitives, the text codecs and the
  database driver are parameters: every theorem below that does not name
  a particular platform holds for all of them.
  \<^item> \<open>JWT_SECRET\<close>: \<^verbatim>\<open>os.Getenv("JWT_SECRET")\<close>; \<open>Now\<close>: \<^verbatim>\<open>time.Now().Unix()\<close>;
  \<^item> \<open>hmac\<close>: the MAC of a signing method (by name) under a key, of a message;
  \<^item> \<open>EncodeSegment\<close>, \<open>DecodeSegment\<close>: jwt-go's base64url codec, an error by its text;
  \<^item> \<open>Marshal\<close>, \<open>Unmarshal_header\<close>, \<open>Unmarshal_claims\<close>: \<^verbatim>\<open>encoding/json\<close> on the token
    header map and on the claims; a failed decoding of the claims gives the error's text
    and the claims as far as the decoder had filled them;
  \<^item> \<open>Sprint\<close>: \<^verbatim>\<open>fmt\<close>'s \<^verbatim>\<open>%v\<close> on a decoded JSON value that is not a string;
  \<^item> \<open>Duration_String\<close>: \<^verbatim>\<open>time.Duration.String()\<close> of a number of seconds;
  \<^item> \<open>bcrypt_compare\<close>: the error of \<^verbatim>\<open>bcrypt.CompareHashAndPassword\<close>, by its text, on a stored
    hash that is long enough: a defect of its format, or the mismatch;
  \<^item> \<open>Format_RFC3339\<close>: \<^verbatim>\<open>t.Format(time.RFC3339)\<close>;
  \<^item> \<open>collate_eq\<close>: the database's \<^verbatim>\<open>=\<close> on text columns;
  \<^item> \<open>Query_Count\<close>: what \<^verbatim>\<open>Scan(&result)\<close> leaves in \<^verbatim>\<open>result.Count\<close> for a raw statement
    that the driver accepts.
\<close>

record platform =
  JWT_SECRET :: string
  Now :: Time
  hmac :: "string \<Rightarrow> string \<Rightarrow> string \<Rightarrow> string"
  EncodeSegment :: "string \<Rightarrow> string"
  DecodeSegment :: "string \<Rightarrow> string + string"
  Marshal :: "json \<Rightarrow> string"
  Unmarshal_header :: "string \<Rightarrow> string + (string \<times> json) list"
  Unmarshal_claims :: "string \<Rightarrow> (string \<times> MyCustomClaims) + MyCustomClaims"
  Sprint :: "json \<Rightarrow> string"
  Duration_String :: "int \<Rightarrow> string"
  bcrypt_compare :: "string \<Rightarrow> string \<Rightarrow> string option"
  Format_RFC3339 :: "Time \<Rightarrow> string"
  collate_eq :: "string \<Rightarrow> string \<Rightarrow> bool"
  Query_Count :: "DB \<Rightarrow> Statement \<Rightarrow> uint64"

section \<open>jwt-go: signing methods, issuing and parsing\<close>

text \<open>The methods jwt-go registers at start-up; \<^verbatim>\<open>GetSigningMethod\<close> returns nil for any
  other name.\<close>

definition registered_methods :: "string list" where
  "registered_methods = [''ES256'', ''ES384'', ''ES512'', ''HS256'', ''HS384'', ''HS512'',
     ''none'', ''PS256'', ''PS384'', ''PS512'', ''RS256'', ''RS384'', ''RS512'']"

definition GetSigningMethod :: "string \<Rightarrow> string" where
  "GetSigningMethod alg = (if alg \<in> set registered_methods then alg else [])"

definition hmac_methods :: "string list" where
  "hmac_methods = [''HS256'', ''HS384'', ''HS512'']"

definition rsa_methods :: "string list" where
  "rsa_methods = [''RS256'', ''RS384'', ''RS512'']"

definition rsapss_methods :: "string list" where
  "rsapss_methods = [''PS256'', ''PS384'', ''PS512'']"

definition ecdsa_methods :: "string list" where
  "ecdsa_methods = [''ES256'', ''ES384'', ''ES512'']"

definition ErrInvalidKey :: string where
  "ErrInvalidKey = ''key is invalid''"

definition ErrInvalidKeyType :: string where
  "ErrInvalidKeyType = ''key is of invalid type''"

definition ErrSignatureInvalid :: string where
  "ErrSignatureInvalid = ''signature is invalid''"

definition NoneSignatureTypeDisallowedError :: string where
  "NoneSignatureTypeDisallowedError = [CHR 0x27] @ ''none'' @ [CHR 0x27] @ '' signature type is not allowed''"

text \<open>
  \<^verbatim>\<open>Method.Sign\<close> and \<^verbatim>\<open>Method.Verify\<close> for a key that is a byte slice, the only kind of
  key main.go supplies. The HMAC methods compute the MAC, and compare it with the decoded
  signature. \<^verbatim>\<open>none\<close> refuses any key but its marker constant. The RSA, RSA-PSS and ECDSA
  methods want a key of their own type: signing refuses the key at once, verifying decodes
  the signature first. The last case is the nil method, on which jwt-go makes no call:
  \<^verbatim>\<open>ParseUnverified\<close> returns with an error before, and main.go signs with HS256 only.
\<close>

definition Sign :: "platform \<Rightarrow> string \<Rightarrow> string \<Rightarrow> string \<Rightarrow> string + string" where
  "Sign P m signingString key =
     (if m \<in> set hmac_methods then Inr (EncodeSegment P (hmac P m key signingString))
      else if m = ''none'' then Inl NoneSignatureTypeDisallowedError
      else if m \<in> set rsa_methods then Inl ErrInvalidKey
      else Inl ErrInvalidKeyType)"

definition Verify :: "platform \<Rightarrow> string \<Rightarrow> string \<Rightarrow> string \<Rightarrow> string \<Rightarrow> string option" where
  "Verify P m signingString signature key =
     (if m \<in> set hmac_methods then
        (case DecodeSegment P signature of
           Inl err \<Rightarrow> Some err
         | Inr sig \<Rightarrow> if sig \<noteq> hmac P m key signingString then Some ErrSignatureInvalid else None)
      else if m = ''none'' then Some NoneSignatureTypeDisallowedError
      else if m \<in> set rsa_methods \<or> m \<in> set ecdsa_methods then
        (case DecodeSegment P signature of
           Inl err \<Rightarrow> Some err
         | Inr sig \<Rightarrow> Some ErrInvalidKeyType)
      else if m \<in> set rsapss_methods then
        (case DecodeSegment P signature of
           Inl err \<Rightarrow> Some err
         | Inr sig \<Rightarrow> Some ErrInvalidKey)
      else Some ErrInvalidKeyType)"

text \<open>\<^verbatim>\<open>jwt.MapClaims\<close> is a Go map; an assignment replaces the value of a key it has.\<close>

fun MapClaims_set :: "string \<Rightarrow> json \<Rightarrow> (string \<times> json) list \<Rightarrow> (string \<times> json) list" where
  "MapClaims_set k v [] = [(k, v)]"
| "MapClaims_set k v ((k', v') # m) =
     (if k = k' then (k, v) # m else (k', v') # MapClaims_set k v m)"

definition NewWithClaims :: "string \<Rightarrow> 'c \<Rightarrow> 'c Token" where
  "NewWithClaims method claims =
     \<lparr>Raw = [], Method = method, Header = Some [(''typ'', JStr ''JWT''), (''alg'', JStr method)],
      Claims = claims, Signature = [], Valid = False\<rparr>"

text \<open>A Go map as \<^verbatim>\<open>encoding/json\<close> writes it: \<^verbatim>\<open>null\<close> when nil.\<close>

definition map_json :: "(string \<times> json) list option \<Rightarrow> json" where
  "map_json m = (case m of None \<Rightarrow> JNull | Some kvs \<Rightarrow> JObj kvs)"

definition SigningString :: "platform \<Rightarrow> ((string \<times> json) list) Token \<Rightarrow> string" where
  "SigningString P t =
     EncodeSegment P (Marshal P (map_json (Header t))) @ ''.'' @
     EncodeSegment P (Marshal P (JObj (Claims t)))"

definition SignedString :: "platform \<Rightarrow> ((string \<times> json) list) Token \<Rightarrow> string \<Rightarrow> string + string" where
  "SignedString P t key =
     (let sstr = SigningString P t
      in case Sign P (Method t) sstr key of
           Inl err \<Rightarrow> Inl err
         | Inr sig \<Rightarrow> Inr (sstr @ ''.'' @ sig))"

definition verifyExp :: "int \<Rightarrow> int \<Rightarrow> bool \<Rightarrow> bool" where
  "verifyExp exp now required = (if exp = 0 then \<not> required else now \<le> exp)"

definition verifyIat :: "int \<Rightarrow> int \<Rightarrow> bool \<Rightarrow> bool" where
  "verifyIat iat now required = (if iat = 0 then \<not> required else iat \<le> now)"

definition verifyNbf :: "int \<Rightarrow> int \<Rightarrow> bool \<Rightarrow> bool" where
  "verifyNbf nbf now required = (if nbf = 0 then \<not> required else nbf \<le> now)"

text \<open>\<^verbatim>\<open>StandardClaims.Valid()\<close>, which \<^verbatim>\<open>MyCustomClaims\<close> inherits: a zero claim is absent and
  passes.\<close>

definition StandardClaims_Valid :: "platform \<Rightarrow> MyCustomClaims \<Rightarrow> ValidationError option" where
  "StandardClaims_Valid P c =
     (let now = Now P;
          vErr0 = \<lparr>Inner = None, errorText = [], Errors = 0\<rparr>;
          vErr1 = (if \<not> verifyExp (ExpiresAt c) now False
                   then vErr0\<lparr>Inner := Some (''token is expired by '' @ Duration_String P (now - ExpiresAt c)),
                              Errors := Errors vErr0 OR ValidationErrorExpired\<rparr>
                   else vErr0);
          vErr2 = (if \<not> verifyIat (IssuedAt c) now False
                   then vErr1\<lparr>Inner := Some ''Token used before issued'',
                              Errors := Errors vErr1 OR ValidationErrorIssuedAt\<rparr>
                   else vErr1);
          vErr3 = (if \<not> verifyNbf (NotBefore c) now False
                   then vErr2\<lparr>Inner := Some ''token is not valid yet'',
                              Errors := Errors vErr2 OR ValidationErrorNotValidYet\<rparr>
                   else vErr2)
      in if Errors vErr3 = 0 then None else Some vErr3)"

text \<open>
  \<^verbatim>\<open>Parser.ParseUnverified\<close> with a \<^verbatim>\<open>MyCustomClaims\<close> destination: three segments, the header,
  the claims, then the method named by the header's \<^verbatim>\<open>alg\<close>. The left summand is the early
  return with an error and the token as far as it was built (header and claims still nil
  when the header does not decode, the claims as the decoder left them when they do not);
  the right one is the token and its three parts. A header that is the JSON text
  \<^verbatim>\<open>null\<close> leaves the map nil; it is taken here as the empty map, which has no \<^verbatim>\<open>alg\<close> either.
\<close>

definition ParseUnverified ::
  "platform \<Rightarrow> string \<Rightarrow> (ParsedToken option \<times> ValidationError) + (ParsedToken \<times> string list)" where
  "ParseUnverified P tokenString =
     (let parts = Split tokenString CHR ''.''
      in if length parts \<noteq> 3 then
           Inl (None, NewValidationError ''token contains an invalid number of segments'' ValidationErrorMalformed)
         else
           let token = \<lparr>Raw = tokenString, Method = [], Header = None, Claims = None,
                        Signature = [], Valid = False\<rparr>
           in case DecodeSegment P (parts ! 0) of
                Inl err \<Rightarrow>
                  if HasPrefix (ToLower tokenString) ''bearer '' then
                    Inl (Some token, NewValidationError
                      (''tokenstring should not contain '' @ [CHR 0x27] @ ''bearer '' @ [CHR 0x27])
                      ValidationErrorMalformed)
                  else Inl (Some token, \<lparr>Inner = Some err, errorText = [], Errors = ValidationErrorMalformed\<rparr>)
              | Inr headerBytes \<Rightarrow>
                 (case Unmarshal_header P headerBytes of
                    Inl err \<Rightarrow> Inl (Some token, \<lparr>Inner = Some err, errorText = [], Errors = ValidationErrorMalformed\<rparr>)
                  | Inr header \<Rightarrow>
                     (let token = token\<lparr>Header := Some header\<rparr>;
                          token = token\<lparr>Claims := Some zero_MyCustomClaims\<rparr>
                      in case DecodeSegment P (parts ! 1) of
                           Inl err \<Rightarrow> Inl (Some token, \<lparr>Inner = Some err, errorText = [], Errors = ValidationErrorMalformed\<rparr>)
                         | Inr claimBytes \<Rightarrow>
                            (case Unmarshal_claims P claimBytes of
                               Inl (err, partial) \<Rightarrow>
                                 Inl (Some (token\<lparr>Claims := Some partial\<rparr>),
                                      \<lparr>Inner = Some err, errorText = [], Errors = ValidationErrorMalformed\<rparr>)
                             | Inr claims \<Rightarrow>
                                (let token = token\<lparr>Claims := Some claims\<rparr>
                                 in case map_of header ''alg'' of
                                      Some (JStr method) \<Rightarrow>
                                        (let token = token\<lparr>Method := GetSigningMethod method\<rparr>
                                         in if Method token = [] then
                                              Inl (Some token, NewValidationError
                                                ''signing method (alg) is unavailable.'' ValidationErrorUnverifiable)
                                            else Inr (token, parts))
                                    | _ \<Rightarrow>
                                        Inl (Some token, NewValidationError
                                          ''signing method (alg) is unspecified.'' ValidationErrorUnverifiable))))))"

text \<open>
  \<^verbatim>\<open>Parser.ParseWithClaims\<close> (the default parser: no method whitelist, claims validated):
  the key function supplies the key or refuses; the claims are validated, then the
  signature; the token is marked valid only when no error flag is set. The token that
  \<^verbatim>\<open>ParseUnverified\<close> returns without an error always has its claims
  (\<open>ParseUnverified_Inr_decoded\<close> below), so the case of nil claims is never taken.
\<close>

definition ParseWithClaims ::
  "platform \<Rightarrow> string \<Rightarrow> (ParsedToken \<Rightarrow> string + string)
     \<Rightarrow> ParsedToken option \<times> ValidationError option" where
  "ParseWithClaims P tokenString keyFunc =
     (case ParseUnverified P tokenString of
        Inl (token, err) \<Rightarrow> (token, Some err)
      | Inr (token, parts) \<Rightarrow>
         (case keyFunc token of
            Inl err \<Rightarrow> (Some token, Some \<lparr>Inner = Some err, errorText = [], Errors = ValidationErrorUnverifiable\<rparr>)
          | Inr key \<Rightarrow>
             (let vErr = (case Claims token of
                            None \<Rightarrow> \<lparr>Inner = None, errorText = [], Errors = 0\<rparr>
                          | Some claims \<Rightarrow>
                             (case StandardClaims_Valid P claims of
                                Some e \<Rightarrow> e
                              | None \<Rightarrow> \<lparr>Inner = None, errorText = [], Errors = 0\<rparr>));
                  token = token\<lparr>Signature := parts ! 2\<rparr>;
                  vErr = (case Verify P (Method token) (parts ! 0 @ ''.'' @ parts ! 1) (Signature token) key of
                            Some err \<Rightarrow> vErr\<lparr>Inner := Some err, Errors := Errors vErr OR ValidationErrorSignatureInvalid\<rparr>
                          | None \<Rightarrow> vErr)
              in if Errors vErr = 0 then (Some (token\<lparr>Valid := True\<rparr>), None)
                 else (Some token, Some vErr))))"

text \<open>
  Whether the third part of a token string is the HS256 signature of the first two under a
  key: the test \<^verbatim>\<open>ParseWithClaims\<close> makes, through \<^verbatim>\<open>token.Method.Verify\<close>, with the key that the
  key function of \<^verbatim>\<open>authApi\<close> hands it.
\<close>

definition signature_verifies :: "platform \<Rightarrow> string \<Rightarrow> string \<Rightarrow> bool" where
  "signature_verifies P tokenString key =
     (case Split tokenString CHR ''.'' of
        [h, c, sig] \<Rightarrow> Verify P ''HS256'' (h @ ''.'' @ c) sig key = None
      | _ \<Rightarrow> False)"

section \<open>gin: the request context\<close>

text \<open>
  The part of \<^verbatim>\<open>gin.Context\<close> the handlers touch: the request headers, the path parameters,
  the decoded request body (\<open>None\<close> when \<^verbatim>\<open>encoding/json\<close> cannot decode it into a
  \<^verbatim>\<open>LoginRequest\<close>), the keys a handler may attach with \<^verbatim>\<open>c.Set\<close>, every \<^verbatim>\<open>c.JSON\<close> call in
  order, and the abort flag.
\<close>

record Context =
  ReqHeader :: "(string \<times> string) list"
  Params :: "(string \<times> string) list"
  ReqBody :: "LoginRequest option"
  Keys :: "(string \<times> json) list"
  Writes :: "(nat \<times> json) list"
  Aborted :: bool

definition Header_Get :: "Context \<Rightarrow> string \<Rightarrow> string" where
  "Header_Get c key = (case map_of (ReqHeader c) key of None \<Rightarrow> [] | Some v \<Rightarrow> v)"

definition Param :: "Context \<Rightarrow> string \<Rightarrow> string" where
  "Param c key = (case map_of (Params c) key of None \<Rightarrow> [] | Some v \<Rightarrow> v)"

definition JSON :: "nat \<Rightarrow> json \<Rightarrow> Context \<Rightarrow> Context" where
  "JSON code obj c = c\<lparr>Writes := Writes c @ [(code, obj)]\<rparr>"

definition Abort :: "Context \<Rightarrow> Context" where
  "Abort c = c\<lparr>Aborted := True\<rparr>"

text \<open>The status line goes out with the first body written; a later \<^verbatim>\<open>c.JSON\<close> only appends
  its body.\<close>

definition wire_status :: "Context \<Rightarrow> nat" where
  "wire_status c = (case Writes c of [] \<Rightarrow> 200 | (code, obj) # rest \<Rightarrow> code)"

text \<open>\<^verbatim>\<open>c.BindJSON(&loginRequest)\<close>: decoding, then the \<^verbatim>\<open>binding:"required"\<close> check on the
  email (the tag on the password is not closed, so no check is attached to it).\<close>

definition BindJSON :: "Context \<Rightarrow> LoginRequest option" where
  "BindJSON c =
     (case ReqBody c of
        None \<Rightarrow> None
      | Some r \<Rightarrow> if LoginUser.Email (Data r) = [] then None else Some r)"

section \<open>gorm: the queries of main.go\<close>

text \<open>\<^verbatim>\<open>getDB\<close> opens a connection and panics with the error when that fails; the connection is
  the error's text or the database.\<close>

definition getDB :: "string + DB \<Rightarrow> panic + DB" where
  "getDB conn = (case conn of Inl err \<Rightarrow> Inl (Panic err) | Inr db \<Rightarrow> Inr db)"

text \<open>\<^verbatim>\<open>First(&dest, cond)\<close>: the matching row of least primary key; with no match the
  destination keeps its value (the error is dropped by every caller).\<close>

definition First :: "User list \<Rightarrow> (User \<Rightarrow> bool) \<Rightarrow> User \<Rightarrow> User" where
  "First rows cond dest =
     (case filter cond rows of
        [] \<Rightarrow> dest
      | r # rs \<Rightarrow> fold (\<lambda>x m. if User.ID x < User.ID m then x else m) rs r)"

text \<open>\<^verbatim>\<open>db.Raw\<close> only builds the statement: gorm sends it when \<^verbatim>\<open>Scan\<close>, \<^verbatim>\<open>Row\<close>, \<^verbatim>\<open>Rows\<close> or
  \<^verbatim>\<open>Exec\<close> is called on the result.\<close>

definition DB_Raw :: "string \<Rightarrow> uint64 list \<Rightarrow> Statement" where
  "DB_Raw sql values = \<lparr>SQL = sql, Vars = values\<rparr>"

text \<open>
  \<^verbatim>\<open>Raw(sql, values...).Scan(&result)\<close> into a struct whose one field is \<^verbatim>\<open>Count\<close>. gorm binds
  the values to the \<^verbatim>\<open>?\<close> of the statement in order and leaves a \<^verbatim>\<open>?\<close> that has no value as it
  is; the driver refuses a statement whose parameters and arguments differ in number, the
  error is dropped by the caller, and \<^verbatim>\<open>result.Count\<close> keeps its zero value.
\<close>

definition placeholders :: "string \<Rightarrow> nat" where
  "placeholders sql = length (filter (\<lambda>ch. ch = CHR ''?'') sql)"

definition Scan_Count :: "platform \<Rightarrow> DB \<Rightarrow> Statement \<Rightarrow> uint64" where
  "Scan_Count P db st =
     (if placeholders (SQL st) \<noteq> length (Vars st) then 0 else Query_Count P db st)"

definition Preload_User :: "DB \<Rightarrow> Article \<Rightarrow> Article" where
  "Preload_User db a = a\<lparr>Article.User := First (tbl_users db) (\<lambda>u. User.ID u = UserID a) (Article.User a)\<rparr>"

definition Preload_Tags :: "DB \<Rightarrow> Article \<Rightarrow> Article" where
  "Preload_Tags db a =
     a\<lparr>Article.Tags := filter (\<lambda>t. (Article.ID a, Tag.ID t) \<in> set (tbl_article_tag db)) (tbl_tags db)\<rparr>"

text \<open>\<^verbatim>\<open>db.Preload("User").Preload("Tags").Find(&articles)\<close>.\<close>

definition Find_articles :: "DB \<Rightarrow> Article list" where
  "Find_articles db = map (\<lambda>a. Preload_Tags db (Preload_User db a)) (tbl_articles db)"

section \<open>JSON renderings\<close>

text \<open>
  What \<^verbatim>\<open>encoding/json\<close> writes for the response values: a struct gives its tagged fields in
  declaration order (fields tagged \<^verbatim>\<open>json:"-"\<close> are left out), a \<^verbatim>\<open>gin.H\<close> map its keys in
  sorted order, a nil slice \<^verbatim>\<open>null\<close>. The slices below are built by \<^verbatim>\<open>append\<close> from a nil
  slice, so they are nil exactly when empty.
\<close>

definition slice_json :: "('a \<Rightarrow> json) \<Rightarrow> 'a list \<Rightarrow> json" where
  "slice_json f xs = (if xs = [] then JNull else JArr (map f xs))"

definition User_json :: "User \<Rightarrow> json" where
  "User_json u = JObj [(''username'', JStr (User.Username u)), (''email'', JStr (User.Email u)),
     (''bio'', JStr (User.Bio u)), (''image'', JStr (User.Image u))]"

definition UserResource_json :: "UserResource \<Rightarrow> json" where
  "UserResource_json r = JObj [(''username'', JStr (UserResource.Username r)),
     (''email'', JStr (UserResource.Email r)), (''bio'', JStr (UserResource.Bio r)),
     (''image'', JStr (UserResource.Image r)), (''token'', JStr (Token r))]"

definition Profile_json :: "Profile \<Rightarrow> json" where
  "Profile_json p = JObj [(''username'', JStr (Profile.Username p)), (''bio'', JStr (Profile.Bio p)),
     (''image'', JStr (Profile.Image p)), (''following'', JBool (Following p))]"

definition ArticleResource_json :: "ArticleResource \<Rightarrow> json" where
  "ArticleResource_json r = JObj [(''title'', JStr (ArticleResource.Title r)),
     (''body'', JStr (ArticleResource.Body r)),
     (''description'', JStr (ArticleResource.Description r)),
     (''slug'', JStr (ArticleResource.Slug r)),
     (''author'', User_json (ArticleResource.User r)),
     (''tagList'', slice_json JStr (ArticleResource.Tags r)),
     (''favorited'', JBool (Favorited r)),
     (''favoritesCount'', JNum (uint (FavoritesCount r))),
     (''createdAt'', JStr (ArticleResource.CreatedAt r)),
     (''updatedAt'', JStr (ArticleResource.UpdatedAt r))]"

definition omitempty_string :: "string \<Rightarrow> string \<Rightarrow> (string \<times> json) list" where
  "omitempty_string k v = (if v = [] then [] else [(k, JStr v)])"

definition omitempty_int :: "string \<Rightarrow> int \<Rightarrow> (string \<times> json) list" where
  "omitempty_int k v = (if v = 0 then [] else [(k, JNum v)])"

definition MyCustomClaims_json :: "MyCustomClaims \<Rightarrow> json" where
  "MyCustomClaims_json c = JObj ([(''user_id'', JNum (uint (UserId c)))] @
     omitempty_string ''aud'' (Audience c) @ omitempty_int ''exp'' (ExpiresAt c) @
     omitempty_string ''jti'' (Id c) @ omitempty_int ''iat'' (IssuedAt c) @
     omitempty_string ''iss'' (Issuer c) @ omitempty_int ''nbf'' (NotBefore c) @
     omitempty_string ''sub'' (Subject c))"

text \<open>
  The registered signing methods as \<^verbatim>\<open>encoding/json\<close> writes them: the exported fields of
  the method's struct, the hash by its number in \<^verbatim>\<open>crypto\<close> (SHA-256 is 5, SHA-384 is 6,
  SHA-512 is 7); \<^verbatim>\<open>none\<close> has no field, the nil method is \<^verbatim>\<open>null\<close>.
\<close>

definition crypto_Hash :: "string \<Rightarrow> int" where
  "crypto_Hash m = (if drop 2 m = ''256'' then 5 else if drop 2 m = ''384'' then 6 else 7)"

definition Method_json :: "string \<Rightarrow> json" where
  "Method_json m =
     (if m \<in> set hmac_methods \<or> m \<in> set rsa_methods then
        JObj [(''Name'', JStr m), (''Hash'', JNum (crypto_Hash m))]
      else if m \<in> set rsapss_methods then
        JObj [(''Name'', JStr m), (''Hash'', JNum (crypto_Hash m)),
              (''Options'', JObj [(''SaltLength'', JNum 0), (''Hash'', JNum (crypto_Hash m))])]
      else if m \<in> set ecdsa_methods then
        JObj [(''Name'', JStr m), (''Hash'', JNum (crypto_Hash m)),
              (''KeySize'', JNum (if m = ''ES256'' then 32 else if m = ''ES384'' then 48 else 66)),
              (''CurveBits'', JNum (if m = ''ES256'' then 256 else if m = ''ES384'' then 384 else 521))]
      else if m = ''none'' then JObj []
      else JNull)"

text \<open>The \<^verbatim>\<open>*jwt.Token\<close> that \<^verbatim>\<open>unfollowProfile\<close> echoes: a nil token, a nil header map and
  nil claims are \<^verbatim>\<open>null\<close>.\<close>

definition Token_json :: "ParsedToken option \<Rightarrow> json" where
  "Token_json token =
     (case token of
        None \<Rightarrow> JNull
      | Some t \<Rightarrow> JObj [(''Raw'', JStr (Raw t)),
          (''Method'', Method_json (Method t)),
          (''Header'', map_json (Header t)),
          (''Claims'', case Claims t of None \<Rightarrow> JNull | Some c \<Rightarrow> MyCustomClaims_json c),
          (''Signature'', JStr (Signature t)), (''Valid'', JBool (Valid t))])"

section \<open>The handlers of main.go\<close>

subsection \<open>getArticles\<close>

fun tag_names :: "Tag list \<Rightarrow> string list \<Rightarrow> string list" where
  "tag_names [] tags = tags"
| "tag_names (tag # rest) tags = tag_names rest (tags @ [Tag.Name tag])"

fun collect_articles :: "platform \<Rightarrow> Article list \<Rightarrow> ArticleResource list \<Rightarrow> ArticleResource list" where
  "collect_articles P [] articleCollection = articleCollection"
| "collect_articles P (article # rest) articleCollection =
     (let tags = tag_names (Article.Tags article) [];
          articleResource = \<lparr>ArticleResource.Title = Article.Title article,
            Body = Article.Body article,
            Description = Article.Description article,
            Slug = [],
            User = Article.User article,
            Tags = tags,
            Favorited = False,
            FavoritesCount = 0,
            CreatedAt = Format_RFC3339 P (Article.CreatedAt article),
            UpdatedAt = Format_RFC3339 P (Article.UpdatedAt article)\<rparr>
      in collect_articles P rest (articleCollection @ [articleResource]))"

definition getArticles :: "platform \<Rightarrow> string + DB \<Rightarrow> Context \<Rightarrow> panic + Context" where
  "getArticles P conn c =
     (case getDB conn of
        Inl p \<Rightarrow> Inl p
      | Inr db \<Rightarrow>
         (let articles = Find_articles db;
              articleCollection = collect_articles P articles []
          in Inr (JSON 200 (JObj [(''articles'', slice_json ArticleResource_json articleCollection),
                                  (''articlesCount'', JNum (int (length articles)))]) c)))"

subsection \<open>CreateToken and loginUser\<close>

definition CreateToken :: "platform \<Rightarrow> uint64 \<Rightarrow> string + string" where
  "CreateToken P userid =
     (let atClaims = [];
          atClaims = MapClaims_set ''authorized'' (JBool True) atClaims;
          atClaims = MapClaims_set ''user_id'' (JNum (uint userid)) atClaims;
          atClaims = MapClaims_set ''exp'' (JNum (Now P + 15 * 60)) atClaims;
          at = NewWithClaims ''HS256'' atClaims
      in case SignedString P at (JWT_SECRET P) of
           Inl err \<Rightarrow> Inl err
         | Inr token \<Rightarrow> Inr token)"

text \<open>\<^verbatim>\<open>bcrypt.CompareHashAndPassword\<close>: the error, by its text. A stored hash shorter than
  a bcrypt hash is refused first; for the others the platform says what is wrong with the
  format of the hash, or that it is not the hash of the password, or nothing.\<close>

definition CompareHashAndPassword :: "platform \<Rightarrow> string \<Rightarrow> string \<Rightarrow> string option" where
  "CompareHashAndPassword P hashedPassword password =
     (if length hashedPassword < 59 then
        Some ''crypto/bcrypt: hashedSecret too short to be a bcrypted password''
      else bcrypt_compare P hashedPassword password)"

definition loginUser :: "platform \<Rightarrow> string + DB \<Rightarrow> Context \<Rightarrow> panic + Context" where
  "loginUser P conn c =
     (case BindJSON c of
        None \<Rightarrow> Inl (Panic ''Wrong data'')
      | Some loginRequest \<Rightarrow>
         (case getDB conn of
            Inl p \<Rightarrow> Inl p
          | Inr db \<Rightarrow>
             (let user = First (tbl_users db)
                    (\<lambda>u. collate_eq P (User.Email u) (LoginUser.Email (Data loginRequest))) zero_User;
                  err = CompareHashAndPassword P (User.Password user) (LoginUser.Password (Data loginRequest));
                  c = (if err \<noteq> None
                       then JSON 401 (JObj [(''message'', JStr ''wrong username or password''),
                                            (''status'', JNum 401)]) c
                       else c)
              in case CreateToken P (User.ID user) of
                   Inl err \<Rightarrow> Inl (Panic ''Server error'')
                 | Inr token \<Rightarrow>
                     Inr (JSON 200 (JObj [(''user'', UserResource_json
                            \<lparr>UserResource.Username = User.Username user,
                             Email = User.Email user,
                             Bio = User.Bio user,
                             Image = User.Image user,
                             Token = token\<rparr>)]) c))))"

subsection \<open>authApi\<close>

text \<open>\<^verbatim>\<open>%v\<close> of \<^verbatim>\<open>token.Header["alg"]\<close>: a string as it is, a missing entry as \<^verbatim>\<open><nil>\<close>.\<close>

definition fmt_v :: "platform \<Rightarrow> json option \<Rightarrow> string" where
  "fmt_v P v = (case v of None \<Rightarrow> ''<nil>'' | Some JNull \<Rightarrow> ''<nil>'' | Some (JStr s) \<Rightarrow> s | Some j \<Rightarrow> Sprint P j)"

text \<open>\<^verbatim>\<open>token.Header[key]\<close>: indexing a nil map gives nil, as a missing key does.\<close>

definition Header_index :: "'c Token \<Rightarrow> string \<Rightarrow> json option" where
  "Header_index token key = (case Header token of None \<Rightarrow> None | Some h \<Rightarrow> map_of h key)"

text \<open>The key function that \<^verbatim>\<open>authApi\<close> hands to the parser.\<close>

definition keyFunc :: "platform \<Rightarrow> ParsedToken \<Rightarrow> string + string" where
  "keyFunc P token =
     (if GetSigningMethod ''HS256'' \<noteq> Method token then
        Inl (''Unexpected signing method: '' @ fmt_v P (Header_index token ''alg''))
      else Inr (JWT_SECRET P))"

definition authApi :: "platform \<Rightarrow> Context \<Rightarrow> panic + (ParsedToken option \<times> Context)" where
  "authApi P c =
     (let tokenString = Header_Get c ''Authorization'';
          bearerToken = Split tokenString CHR '' ''
      in case elem_at bearerToken 1 of
           Inl p \<Rightarrow> Inl p
         | Inr t \<Rightarrow>
            (case ParseWithClaims P t (keyFunc P) of
               (token, err) \<Rightarrow>
                 if token = None \<or> err = None \<or> (case token of None \<Rightarrow> True | Some tk \<Rightarrow> \<not> Valid tk) then
                   (case err of
                      None \<Rightarrow> Inl NilDereference
                    | Some e \<Rightarrow> Inr (token, JSON 401 (JObj [(''error'', JStr (Error e)),
                                                            (''message'', JStr ''not authorized'')]) c))
                 else Inr (token, c)))"

subsection \<open>showProfile and unfollowProfile\<close>

definition showProfile :: "platform \<Rightarrow> string + DB \<Rightarrow> Context \<Rightarrow> panic + Context" where
  "showProfile P conn c =
     (let username = Param c ''username''
      in case getDB conn of
           Inl p \<Rightarrow> Inl p
         | Inr db \<Rightarrow>
            (let user = First (tbl_users db) (\<lambda>u. collate_eq P (User.Username u) username) zero_User;
                 profile = \<lparr>Profile.Username = User.Username user, Bio = User.Bio user,
                            Image = User.Image user, Following = False\<rparr>
             in Inr (JSON 200 (JObj [(''profile'', Profile_json profile)]) c)))"

text \<open>
  The handler returns the context and the database as it leaves them. The \<^verbatim>\<open>DELETE\<close>
  statement is built with \<^verbatim>\<open>Raw\<close> (\<open>DB_Raw\<close>) and dropped: nothing is called on it that would send it.
\<close>

definition unfollowProfile :: "platform \<Rightarrow> string + DB \<Rightarrow> Context \<Rightarrow> panic + (Context \<times> DB)" where
  "unfollowProfile P conn c =
     (case authApi P c of
        Inl p \<Rightarrow> Inl p
      | Inr (token, c) \<Rightarrow>
         (let c = JSON 200 (JObj [(''token'', Token_json token)]) c;
              username = Param c ''username''
          in case getDB conn of
               Inl p \<Rightarrow> Inl p
             | Inr db \<Rightarrow>
                (let user = First (tbl_users db) (\<lambda>u. collate_eq P (User.Username u) username) zero_User
                 in case getDB conn of
                      Inl p \<Rightarrow> Inl p
                    | Inr db \<Rightarrow>
                       (let result_Count = Scan_Count P db
                              (DB_Raw ''SELECT COUNT(*) FROM followers WHERE user_id=? AND follower_id=?'' [User.ID user]);
                            c = (if result_Count = 0
                                 then Abort (JSON 402 (JObj [(''error'', JStr ''Unathorized'')]) c)
                                 else c)
                        in case getDB conn of
                             Inl p \<Rightarrow> Inl p
                           | Inr db \<Rightarrow>
                              (let dropped = DB_Raw ''DELETE FROM followers WHERE user_id=? AND follower_id=?'' [User.ID user]
                               in Inr (c, db))))))"

subsection \<open>The other handlers behind POST, PUT and DELETE\<close>

definition createArticle :: "Context \<Rightarrow> Context" where
  "createArticle c = JSON 200 (JObj [(''article'', JStr ''pong'')]) c"

definition deleteArticle :: "Context \<Rightarrow> Context" where
  "deleteArticle c = JSON 200 (JObj [(''message'', JStr ''pong'')]) c"

definition updateArticle :: "Context \<Rightarrow> Context" where
  "updateArticle c = JSON 200 (JObj [(''message'', JStr ''pong'')]) c"

definition favoriteArticle :: "Context \<Rightarrow> Context" where
  "favoriteArticle c = JSON 200 (JObj [(''message'', JStr ''pong'')]) c"

definition unfavoriteArticle :: "Context \<Rightarrow> Context" where
  "unfavoriteArticle c = JSON 200 (JObj [(''message'', JStr ''pong'')]) c"

definition createComment :: "Context \<Rightarrow> Context" where
  "createComment c = JSON 200 (JObj [(''comment'', JStr ''pong'')]) c"

definition deleteComment :: "Context \<Rightarrow> Context" where
  "deleteComment c = JSON 200 (JObj [(''comment'', JStr ''pong'')]) c"

definition createUser :: "Context \<Rightarrow> Context" where
  "createUser c = JSON 200 (JObj [(''comment'', JStr ''pong'')]) c"

definition updateUser :: "Context \<Rightarrow> Context" where
  "updateUser c = JSON 200 (JObj [(''comment'', JStr ''pong'')]) c"

definition followProfile :: "Context \<Rightarrow> Context" where
  "followProfile c = JSON 200 (JObj [(''message'', JStr ''pong'')]) c"

text \<open>
  The routes that \<^verbatim>\<open>main\<close> registers under POST, PUT and DELETE, \<^verbatim>\<open>users/login\<close> apart, each
  with its handler. A handler that does not open the database leaves it as it was.
\<close>

datatype route =
    POST_articles
  | PUT_articles_slug
  | DELETE_articles_slug
  | POST_articles_slug_favorite
  | DELETE_articles_slug_favorite
  | POST_articles_slug_comments
  | DELETE_articles_slug_comments_commentId
  | POST_users
  | PUT_user
  | POST_profiles_username_follow
  | DELETE_profiles_username_follow

fun handle :: "platform \<Rightarrow> DB \<Rightarrow> route \<Rightarrow> Context \<Rightarrow> panic + (Context \<times> DB)" where
  "handle P db POST_articles c = Inr (createArticle c, db)"
| "handle P db PUT_articles_slug c = Inr (updateArticle c, db)"
| "handle P db DELETE_articles_slug c = Inr (deleteArticle c, db)"
| "handle P db POST_articles_slug_favorite c = Inr (favoriteArticle c, db)"
| "handle P db DELETE_articles_slug_favorite c = Inr (unfavoriteArticle c, db)"
| "handle P db POST_articles_slug_comments c = Inr (createComment c, db)"
| "handle P db DELETE_articles_slug_comments_commentId c = Inr (deleteComment c, db)"
| "handle P db POST_users c = Inr (createUser c, db)"
| "handle P db PUT_user c = Inr (updateUser c, db)"
| "handle P db POST_profiles_username_follow c = Inr (followProfile c, db)"
| "handle P db DELETE_profiles_username_follow c = unfollowProfile P (Inr db) c"

text \<open>The follow relation as the \<^verbatim>\<open>followers\<close> table holds it: \<open>a\<close> follows \<open>b\<close>.\<close>

definition follow_exists :: "DB \<Rightarrow> uint64 \<Rightarrow> uint64 \<Rightarrow> bool" where
  "follow_exists db a b = ((b, a) \<in> set (tbl_followers db))"

section \<open>A small platform for running the model\<close>

text \<open>
  A stand-in platform on which the handlers can be evaluated at concrete requests: the
  codecs write a header as its \<^verbatim>\<open>alg\<close> and the claims as \<^verbatim>\<open>user_id,exp\<close> in decimal, the
  MAC is the sum of the character codes of method, key and message, a stored password
  hash is 59 filler characters followed by the password, the count of a statement with
  two bound values is the number of matching rows of \<^verbatim>\<open>followers\<close>. It is used only in the closed examples; nothing general rests on it.
\<close>

fun show_nat :: "nat \<Rightarrow> string" where
  "show_nat n = (if n < 10 then [''0123456789'' ! n]
                 else show_nat (n div 10) @ [''0123456789'' ! (n mod 10)])"

declare show_nat.simps [simp del]

definition digit_val :: "char \<Rightarrow> nat option" where
  "digit_val c = (let n = (of_char c :: nat) in if 48 \<le> n \<and> n \<le> 57 then Some (n - 48) else None)"

fun read_nat_acc :: "string \<Rightarrow> nat \<Rightarrow> nat option" where
  "read_nat_acc [] acc = Some acc"
| "read_nat_acc (c # cs) acc =
     (case digit_val c of None \<Rightarrow> None | Some d \<Rightarrow> read_nat_acc cs (acc * 10 + d))"

definition read_nat :: "string \<Rightarrow> nat option" where
  "read_nat s = (if s = [] then None else read_nat_acc s 0)"

definition demo_Marshal :: "json \<Rightarrow> string" where
  "demo_Marshal j =
     (case j of
        JObj kvs \<Rightarrow>
          (case map_of kvs ''alg'' of
             Some (JStr a) \<Rightarrow> a
           | _ \<Rightarrow> (case (map_of kvs ''user_id'', map_of kvs ''exp'') of
                     (Some (JNum u), Some (JNum e)) \<Rightarrow> show_nat (nat u) @ '','' @ show_nat (nat e)
                   | _ \<Rightarrow> []))
      | _ \<Rightarrow> [])"

definition demo_Unmarshal_header :: "string \<Rightarrow> string + (string \<times> json) list" where
  "demo_Unmarshal_header s =
     (if s = [] then Inl ''unexpected end of JSON input''
      else if s = ''{}'' then Inr []
      else Inr [(''alg'', JStr s), (''typ'', JStr ''JWT'')])"

definition demo_Unmarshal_claims :: "string \<Rightarrow> (string \<times> MyCustomClaims) + MyCustomClaims" where
  "demo_Unmarshal_claims s =
     (case Split s CHR '','' of
        [u, e] \<Rightarrow>
          (case (read_nat u, read_nat e) of
             (Some uid, Some exp) \<Rightarrow> Inr (zero_MyCustomClaims\<lparr>ExpiresAt := int exp, UserId := of_nat uid\<rparr>)
           | (Some uid, None) \<Rightarrow>
               Inl (''invalid character in claims'', zero_MyCustomClaims\<lparr>UserId := of_nat uid\<rparr>)
           | _ \<Rightarrow> Inl (''invalid character in claims'', zero_MyCustomClaims))
      | _ \<Rightarrow> Inl (''invalid character in claims'', zero_MyCustomClaims))"

definition demo_hmac :: "string \<Rightarrow> string \<Rightarrow> string \<Rightarrow> string" where
  "demo_hmac m key msg = show_nat (sum_list (map of_char (m @ key @ msg)))"

definition demo_Query_Count :: "DB \<Rightarrow> Statement \<Rightarrow> uint64" where
  "demo_Query_Count db st =
     (case Vars st of
        [u, f] \<Rightarrow> of_nat (length (filter (\<lambda>row. row = (u, f)) (tbl_followers db)))
      | _ \<Rightarrow> 0)"

definition demo :: platform where
  "demo = \<lparr>JWT_SECRET = ''s3cret'', Now = 1000, hmac = demo_hmac,
     EncodeSegment = (\<lambda>s. s),
     DecodeSegment = (\<lambda>s. if CHR ''!'' \<in> set s then Inl ''illegal base64 data'' else Inr s),
     Marshal = demo_Marshal, Unmarshal_header = demo_Unmarshal_header,
     Unmarshal_claims = demo_Unmarshal_claims,
     Sprint = (\<lambda>j. ''?''),
     Duration_String = (\<lambda>d. show_nat (nat d) @ ''s''),
     bcrypt_compare = (\<lambda>h p. if drop 59 h = p then None
        else Some ''crypto/bcrypt: hashedPassword is not the hash of the given password''),
     Format_RFC3339 = (\<lambda>t. show_nat (nat t)),
     collate_eq = (\<lambda>a b. a = b),
     Query_Count = demo_Query_Count\<rparr>"

definition request :: "(string \<times> string) list \<Rightarrow> (string \<times> string) list \<Rightarrow> LoginRequest option \<Rightarrow> Context" where
  "request hdrs params body =
     \<lparr>ReqHeader = hdrs, Params = params, ReqBody = body, Keys = [], Writes = [], Aborted = False\<rparr>"

definition alice :: User where
  "alice = \<lparr>User.ID = 1, Username = ''alice'', Email = ''alice@example.com'',
     Password = replicate 59 CHR ''x'' @ ''wonderland'', Bio = ''curious'', Image = [],
     EmailVerifiedAt = 0, CreatedAt = 10, UpdatedAt = 10\<rparr>"

definition bob :: User where
  "bob = \<lparr>User.ID = 2, Username = ''bob'', Email = ''bob@example.com'',
     Password = replicate 59 CHR ''x'' @ ''builder'', Bio = [], Image = [],
     EmailVerifiedAt = 0, CreatedAt = 20, UpdatedAt = 20\<rparr>"

text \<open>A database in which alice (id 1) follows bob (id 2), and no article is stored.\<close>

definition demo_db :: DB where
  "demo_db = \<lparr>tbl_users = [alice, bob], tbl_articles = [], tbl_tags = [], tbl_article_tag = [],
     tbl_followers = [(2, 1)], tbl_favoriters = []\<rparr>"

text \<open>The same database with two articles by alice, the first tagged \<^verbatim>\<open>go\<close>.\<close>

definition blog_db :: DB where
  "blog_db = demo_db\<lparr>
     tbl_articles :=
       [\<lparr>Article.ID = 1, Title = ''Hello'', Body = ''First post'', Description = ''intro'',
         Slug = ''hello'', UserID = 1, User = zero_User, Tags = [], Favoriters = [],
         CreatedAt = 100, UpdatedAt = 100\<rparr>,
        \<lparr>Article.ID = 2, Title = ''Again'', Body = ''Second post'', Description = ''more'',
         Slug = ''again'', UserID = 1, User = zero_User, Tags = [], Favoriters = [],
         CreatedAt = 200, UpdatedAt = 200\<rparr>],
     tbl_tags := [\<lparr>Tag.ID = 7, Name = ''go'', Slug = ''go'', CreatedAt = 50, UpdatedAt = 50\<rparr>],
     tbl_article_tag := [(1, 7)]\<rparr>"

section \<open>Facts about the library functions\<close>

lemma Split_not_Nil: "Split s sep \<noteq> []"
  by (induction s) (auto split: list.splits)

lemma length_Split: "length (Split s sep) = Suc (length (filter (\<lambda>c. c = sep) s))"
  by (induction s) (auto split: list.splits simp: Split_not_Nil)

lemma elem_at_Split_no_sep:
  "sep \<notin> set s \<Longrightarrow> elem_at (Split s sep) 1 = Inl (IndexOutOfRange 1 1)"
proof -
  assume "sep \<notin> set s"
  then have "filter (\<lambda>c. c = sep) s = []"
    by (induction s) auto
  then have "length (Split s sep) = 1"
    by (simp add: length_Split)
  then show ?thesis
    by (simp add: elem_at_def)
qed

lemma length_collect_articles: "length (collect_articles P as acc) = length acc + length as"
  by (induction as arbitrary: acc) (auto simp: Let_def)

lemma length_Find_articles: "length (Find_articles db) = length (tbl_articles db)"
  by (simp add: Find_articles_def)

text \<open>A token that comes back with an error was never marked valid, and a parse without an
  error always comes with a token marked valid: the three tests of \<^verbatim>\<open>authApi\<close> agree.\<close>

lemma ParseUnverified_Inl_invalid:
  "ParseUnverified P t = Inl (Some tok, e) \<Longrightarrow> \<not> Valid tok"
  by (auto simp: ParseUnverified_def Let_def split: if_splits sum.splits option.splits json.splits)

lemma ParseUnverified_Inr_invalid:
  "ParseUnverified P t = Inr (tok, parts) \<Longrightarrow> \<not> Valid tok"
  by (auto simp: ParseUnverified_def Let_def split: if_splits sum.splits option.splits json.splits)

lemma ParseUnverified_Inr_decoded:
  "ParseUnverified P t = Inr (tok, parts) \<Longrightarrow>
     parts = Split t CHR ''.'' \<and> length parts = 3 \<and> Method tok \<noteq> [] \<and>
     (\<exists>h c. Header tok = Some h \<and> Claims tok = Some c)"
  by (auto simp: ParseUnverified_def Let_def split: if_splits sum.splits option.splits json.splits)

lemma ParseWithClaims_error_invalid:
  "ParseWithClaims P t kf = (Some tok, Some e) \<Longrightarrow> \<not> Valid tok"
  by (auto simp: ParseWithClaims_def Let_def dest: ParseUnverified_Inl_invalid ParseUnverified_Inr_invalid
      split: sum.splits prod.splits if_splits)

lemma ParseWithClaims_no_error_valid:
  "ParseWithClaims P t kf = (tok, None) \<Longrightarrow> \<exists>tk. tok = Some tk \<and> Valid tk"
  by (auto simp: ParseWithClaims_def Let_def split: sum.splits prod.splits if_splits)

lemma CreateToken_succeeds: "\<exists>token. CreateToken P userid = Inr token"
  by (simp add: CreateToken_def SignedString_def Sign_def NewWithClaims_def hmac_methods_def Let_def)

section \<open>authApi on a header with a second part\<close>

lemma authApi_error:
  assumes "elem_at (Split (Header_Get c ''Authorization'') CHR '' '') 1 = Inr t"
    and "ParseWithClaims P t (keyFunc P) = (tok, Some e)"
  shows "authApi P c = Inr (tok, JSON 401 (JObj [(''error'', JStr (Error e)),
           (''message'', JStr ''not authorized'')]) c)"
proof (cases tok)
  case None
  with assms show ?thesis by (simp add: authApi_def Let_def)
next
  case (Some tk)
  with assms(2) have "\<not> Valid tk" by (simp add: ParseWithClaims_error_invalid)
  with assms Some show ?thesis by (simp add: authApi_def Let_def)
qed

lemma authApi_no_error:
  assumes "elem_at (Split (Header_Get c ''Authorization'') CHR '' '') 1 = Inr t"
    and "ParseWithClaims P t (keyFunc P) = (tok, None)"
  shows "authApi P c = Inl NilDereference"
  using assms by (simp add: authApi_def Let_def)

section \<open>Login\<close>

text \<open>Whenever the password check fails, \<^verbatim>\<open>loginUser\<close> writes the 401 body and goes on: it
  creates a token for the user it looked up and writes the user resource with it.\<close>

lemma loginUser_falls_through:
  assumes "BindJSON c = Some r"
    and "user = First (tbl_users db) (\<lambda>u. collate_eq P (User.Email u) (LoginUser.Email (Data r))) zero_User"
    and "CompareHashAndPassword P (User.Password user) (LoginUser.Password (Data r)) \<noteq> None"
  shows "\<exists>token. CreateToken P (User.ID user) = Inr token \<and>
           loginUser P (Inr db) c =
             Inr (JSON 200 (JObj [(''user'', UserResource_json
                    \<lparr>UserResource.Username = User.Username user, Email = User.Email user,
                     Bio = User.Bio user, Image = User.Image user, Token = token\<rparr>)])
                  (JSON 401 (JObj [(''message'', JStr ''wrong username or password''),
                                   (''status'', JNum 401)]) c))"
proof -
  obtain token where "CreateToken P (User.ID user) = Inr token"
    using CreateToken_succeeds by blast
  with assms show ?thesis
    by (auto simp: loginUser_def getDB_def Let_def)
qed

text \<open>
  C1. A login whose password check fails must get the uniform unauthorized response and
  no token. On the code this fails: alice's account exists, the password \<^verbatim>\<open>wrong\<close> does not
  match her stored hash, and the handler writes the 401 body and then the user resource
  with a freshly signed token for alice.
\<close>

theorem loginUser_wrong_password_issues_token:
  "CompareHashAndPassword demo (User.Password alice) ''wrong'' \<noteq> None \<and>
   loginUser demo (Inr demo_db)
     (request [] [] (Some \<lparr>Data = \<lparr>LoginUser.Email = ''alice@example.com'', Password = ''wrong''\<rparr>\<rparr>)) =
   Inr (JSON 200 (JObj [(''user'', JObj [(''username'', JStr ''alice''),
                                         (''email'', JStr ''alice@example.com''),
                                         (''bio'', JStr ''curious''), (''image'', JStr []),
                                         (''token'', JStr ''HS256.1,1900.1561'')])])
         (JSON 401 (JObj [(''message'', JStr ''wrong username or password''), (''status'', JNum 401)])
            (request [] [] (Some \<lparr>Data = \<lparr>LoginUser.Email = ''alice@example.com'', Password = ''wrong''\<rparr>\<rparr>))))"
  by code_simp

section \<open>Tokens\<close>

text \<open>
  C2. Validating a freshly issued token must return the user id with no error and no error
  response. On the code this fails: the token issued for user 1 parses without error and is
  marked valid, \<^verbatim>\<open>authApi\<close> takes the rejection branch because \<^verbatim>\<open>err == nil\<close> is one of its
  tests, and calling \<^verbatim>\<open>err.Error()\<close> on the nil error panics.
\<close>

theorem authApi_fresh_token_panics:
  "CreateToken demo 1 = Inr ''HS256.1,1900.1561'' \<and>
   ParseWithClaims demo ''HS256.1,1900.1561'' (keyFunc demo) =
     (Some \<lparr>Raw = ''HS256.1,1900.1561'', Method = ''HS256'',
             Header = Some [(''alg'', JStr ''HS256''), (''typ'', JStr ''JWT'')],
             Claims = Some (zero_MyCustomClaims\<lparr>ExpiresAt := 1900, UserId := 1\<rparr>),
             Signature = ''1561'', Valid = True\<rparr>, None) \<and>
   authApi demo (request [(''Authorization'', ''Bearer HS256.1,1900.1561'')] [] None) = Inl NilDereference"
  by code_simp

text \<open>
  C3. The middleware must not crash on any header value. On the code this fails: a header
  value without a space (the empty value of a request that has no \<^verbatim>\<open>Authorization\<close> header
  among them) splits into one part, and \<^verbatim>\<open>bearerToken[1]\<close> panics.
\<close>

theorem authApi_header_without_space_panics:
  "CHR '' '' \<notin> set (Header_Get c ''Authorization'') \<Longrightarrow> authApi P c = Inl (IndexOutOfRange 1 1)"
  using elem_at_Split_no_sep [of "CHR '' ''" "Header_Get c ''Authorization''"]
  by (simp add: authApi_def Let_def)

theorem authApi_header_without_space_panics_witness:
  "CHR '' '' \<notin> set (Header_Get (request [] [] None) ''Authorization'') \<and>
   authApi demo (request [] [] None) = Inl (IndexOutOfRange 1 1)"
  using authApi_header_without_space_panics [of "request [] [] None" demo]
  by (simp add: Header_Get_def request_def)

text \<open>
  C9. For every user id, \<^verbatim>\<open>CreateToken\<close> builds exactly the claims \<^verbatim>\<open>authorized: true\<close>,
  \<^verbatim>\<open>user_id\<close> and \<^verbatim>\<open>exp\<close> = now + 15 minutes, under a header naming HS256, and signs header
  and claims with HS256 under \<^verbatim>\<open>JWT_SECRET\<close>. It returns the three segments and never an
  error: with a byte-slice key the HMAC method has nothing to refuse.
\<close>

theorem CreateToken_claims:
  "CreateToken P userid =
     Inr (EncodeSegment P (Marshal P (JObj [(''typ'', JStr ''JWT''), (''alg'', JStr ''HS256'')])) @ ''.'' @
          EncodeSegment P (Marshal P (JObj [(''authorized'', JBool True), (''user_id'', JNum (uint userid)),
                                            (''exp'', JNum (Now P + 15 * 60))])) @ ''.'' @
          EncodeSegment P (hmac P ''HS256'' (JWT_SECRET P)
            (EncodeSegment P (Marshal P (JObj [(''typ'', JStr ''JWT''), (''alg'', JStr ''HS256'')])) @ ''.'' @
             EncodeSegment P (Marshal P (JObj [(''authorized'', JBool True), (''user_id'', JNum (uint userid)),
                                               (''exp'', JNum (Now P + 15 * 60))])))))"
  by (simp add: CreateToken_def SignedString_def SigningString_def Sign_def NewWithClaims_def
      hmac_methods_def map_json_def Let_def)

theorem CreateToken_claims_witness:
  "CreateToken demo 1 = Inr ''HS256.1,1900.1561''"
  using CreateToken_claims [of demo 1]
  by (simp add: demo_def demo_Marshal_def demo_hmac_def show_nat.simps)

section \<open>Articles\<close>

text \<open>
  C10. For every database, the \<^verbatim>\<open>articlesCount\<close> of the \<^verbatim>\<open>getArticles\<close> response is the
  number of article objects under \<^verbatim>\<open>articles\<close> in the same response, one per stored article.
  With no article stored the count is 0 and \<^verbatim>\<open>articles\<close> is \<^verbatim>\<open>null\<close>, the rendering of the nil
  slice.
\<close>

theorem getArticles_articlesCount:
  "\<exists>objs. getArticles P (Inr db) c =
      Inr (JSON 200 (JObj [(''articles'', if objs = [] then JNull else JArr objs),
                           (''articlesCount'', JNum (int (length objs)))]) c)
     \<and> length objs = length (tbl_articles db)"
proof -
  let ?rs = "collect_articles P (Find_articles db) []"
  have len: "length ?rs = length (Find_articles db)"
    by (simp add: length_collect_articles)
  have "getArticles P (Inr db) c =
      Inr (JSON 200 (JObj [(''articles'', if map ArticleResource_json ?rs = [] then JNull
                                          else JArr (map ArticleResource_json ?rs)),
                           (''articlesCount'', JNum (int (length (map ArticleResource_json ?rs))))]) c)"
    by (simp add: getArticles_def getDB_def slice_json_def len Let_def)
  moreover have "length (map ArticleResource_json ?rs) = length (tbl_articles db)"
    by (simp add: len length_Find_articles)
  ultimately show ?thesis by blast
qed

theorem getArticles_articlesCount_witness:
  "\<exists>objs. getArticles demo (Inr blog_db) (request [] [] None) =
      Inr (JSON 200 (JObj [(''articles'', if objs = [] then JNull else JArr objs),
                           (''articlesCount'', JNum (int (length objs)))]) (request [] [] None))
     \<and> length objs = 2"
proof -
  have two: "length (tbl_articles blog_db) = 2"
    by (simp add: blog_db_def)
  show ?thesis
    using getArticles_articlesCount [of demo blog_db "request [] [] None"]
    unfolding two .
qed


section \<open>The key function and the signing secret\<close>

lemma keyFunc_Inr: "keyFunc P tok = Inr k \<Longrightarrow> Method tok = ''HS256'' \<and> k = JWT_SECRET P"
  by (auto simp: keyFunc_def GetSigningMethod_def registered_methods_def split: if_splits)

lemma keyFunc_Inl:
  "keyFunc P tok = Inl err \<Longrightarrow> err = ''Unexpected signing method: '' @ fmt_v P (Header_index tok ''alg'')"
  by (auto simp: keyFunc_def split: if_splits)

lemma validated_token_is_HS256:
  assumes "ParseWithClaims P t (keyFunc P) = (Some tok, None)"
  shows "Method tok = ''HS256''"
  using assms
  by (auto simp: ParseWithClaims_def Let_def dest!: keyFunc_Inr split: sum.splits prod.splits if_splits)

text \<open>Two keys under which the HS256 check fails make it fail with the same error: the
  decoding error of the signature, or \<^verbatim>\<open>signature is invalid\<close>.\<close>

lemma Verify_failures_agree:
  assumes "Verify P ''HS256'' s sig k1 \<noteq> None" and "Verify P ''HS256'' s sig k2 \<noteq> None"
  shows "Verify P ''HS256'' s sig k1 = Verify P ''HS256'' s sig k2"
  using assms
  by (auto simp: Verify_def hmac_methods_def split: sum.splits if_splits)

lemma Verify_outcomes_agree:
  assumes "(Verify P ''HS256'' s sig k1 = None) = (Verify P ''HS256'' s sig k2 = None)"
  shows "Verify P ''HS256'' s sig k1 = Verify P ''HS256'' s sig k2"
proof (cases "Verify P ''HS256'' s sig k1 = None")
  case True
  with assms show ?thesis by simp
next
  case False
  with assms have "Verify P ''HS256'' s sig k2 \<noteq> None" by simp
  with False show ?thesis by (rule Verify_failures_agree)
qed

lemma Verify_secret [simp]:
  "Verify (P\<lparr>JWT_SECRET := k\<rparr>) m s sig key = Verify P m s sig key"
  by (simp add: Verify_def split: sum.splits)

lemma StandardClaims_Valid_secret [simp]:
  "StandardClaims_Valid (P\<lparr>JWT_SECRET := k\<rparr>) c = StandardClaims_Valid P c"
  by (simp add: StandardClaims_Valid_def Let_def)

lemma ParseUnverified_secret [simp]:
  "ParseUnverified (P\<lparr>JWT_SECRET := k\<rparr>) t = ParseUnverified P t"
  by (simp add: ParseUnverified_def Let_def split: sum.splits option.splits json.splits prod.splits)

lemma keyFunc_secret:
  "keyFunc (P\<lparr>JWT_SECRET := k\<rparr>) tok =
     (case keyFunc P tok of Inl err \<Rightarrow> Inl err | Inr key \<Rightarrow> Inr k)"
  by (simp add: keyFunc_def fmt_v_def split: option.splits json.splits)

text \<open>
  The parse depends on the signing secret only through the outcome of the signature
  check: another secret that agrees with the configured one on whether the signature
  verifies gives the same token and the same error.
\<close>

lemma ParseWithClaims_secret:
  assumes "signature_verifies P t k = signature_verifies P t (JWT_SECRET P)"
  shows "ParseWithClaims (P\<lparr>JWT_SECRET := k\<rparr>) t (keyFunc (P\<lparr>JWT_SECRET := k\<rparr>)) =
         ParseWithClaims P t (keyFunc P)"
proof (cases "ParseUnverified P t")
  case (Inl a)
  then show ?thesis
    by (simp add: ParseWithClaims_def)
next
  case (Inr b)
  then obtain token parts where b: "ParseUnverified P t = Inr (token, parts)"
    by (cases b) auto
  from ParseUnverified_Inr_decoded [OF b]
  have parts: "parts = Split t CHR ''.''" and len: "length parts = 3"
    by auto
  from len obtain h c sig where three: "parts = [h, c, sig]"
    by (cases parts; cases "tl parts"; cases "tl (tl parts)") auto
  show ?thesis
  proof (cases "keyFunc P token")
    case (Inl err)
    with b show ?thesis
      by (simp add: ParseWithClaims_def keyFunc_secret)
  next
    case (Inr key)
    then have m: "Method token = ''HS256''" and key: "key = JWT_SECRET P"
      by (auto dest: keyFunc_Inr)
    from parts three have split: "Split t CHR ''.'' = [h, c, sig]"
      by simp
    from assms
    have "(Verify P ''HS256'' (h @ ''.'' @ c) sig k = None) =
          (Verify P ''HS256'' (h @ ''.'' @ c) sig (JWT_SECRET P) = None)"
      by (simp add: signature_verifies_def split)
    then have "Verify P ''HS256'' (h @ ''.'' @ c) sig k =
               Verify P ''HS256'' (h @ ''.'' @ c) sig (JWT_SECRET P)"
      by (rule Verify_outcomes_agree)
    with b Inr m key three show ?thesis
      by (simp add: ParseWithClaims_def keyFunc_secret Let_def cong: option.case_cong)
  qed
qed

lemma authApi_secret:
  assumes "elem_at (Split (Header_Get c ''Authorization'') CHR '' '') 1 = Inr t"
    and "signature_verifies P t k = signature_verifies P t (JWT_SECRET P)"
  shows "authApi (P\<lparr>JWT_SECRET := k\<rparr>) c = authApi P c"
  using assms(1) ParseWithClaims_secret [OF assms(2)]
  by (simp add: authApi_def Let_def)

lemma authApi_Inr_context:
  "authApi P c = Inr (tok, c1) \<Longrightarrow> c1 = c \<or> (\<exists>body. c1 = JSON 401 body c)"
  by (auto simp: authApi_def Let_def split: sum.splits prod.splits if_splits option.splits)

lemma Param_JSON [simp]: "Param (JSON code obj c) key = Param c key"
  by (simp add: Param_def JSON_def)

text \<open>No request gets through \<^verbatim>\<open>authApi\<close>: whenever it returns, it has written the rejection.\<close>

lemma authApi_never_accepts:
  assumes "authApi P c = Inr (tok, c')"
  shows "\<exists>e. c' = JSON 401 (JObj [(''error'', JStr (Error e)), (''message'', JStr ''not authorized'')]) c"
proof -
  from assms obtain t where t: "elem_at (Split (Header_Get c ''Authorization'') CHR '' '') 1 = Inr t"
    by (auto simp: authApi_def Let_def split: sum.splits)
  obtain tk err where p: "ParseWithClaims P t (keyFunc P) = (tk, err)"
    by (cases "ParseWithClaims P t (keyFunc P)") auto
  show ?thesis
  proof (cases err)
    case None
    with authApi_no_error [OF t] p assms show ?thesis by simp
  next
    case (Some e)
    with authApi_error [OF t] p assms show ?thesis by auto
  qed
qed

section \<open>The routes behind POST, PUT and DELETE\<close>

text \<open>The count query of \<^verbatim>\<open>unfollowProfile\<close> has two placeholders and one value: its count is
  0 whatever the \<^verbatim>\<open>followers\<close> table holds.\<close>

lemma count_query_unbound:
  "Scan_Count P db (DB_Raw ''SELECT COUNT(*) FROM followers WHERE user_id=? AND follower_id=?'' [x]) = 0"
  by (simp add: Scan_Count_def DB_Raw_def placeholders_def)

text \<open>What \<^verbatim>\<open>unfollowProfile\<close> does with a token that fails validation: the rejection, the echo
  of the token, the 402 body of the count check, and the abort; the database is left alone.\<close>

lemma unfollowProfile_after_error:
  assumes "elem_at (Split (Header_Get c ''Authorization'') CHR '' '') 1 = Inr t"
    and "ParseWithClaims P t (keyFunc P) = (tok, Some e)"
  shows "unfollowProfile P (Inr db) c =
           Inr (Abort (JSON 402 (JObj [(''error'', JStr ''Unathorized'')])
                  (JSON 200 (JObj [(''token'', Token_json tok)])
                     (JSON 401 (JObj [(''error'', JStr (Error e)),
                                      (''message'', JStr ''not authorized'')]) c))), db)"
  using authApi_error [OF assms]
  by (simp add: unfollowProfile_def getDB_def Let_def count_query_unbound)

text \<open>With a token that validates, \<^verbatim>\<open>unfollowProfile\<close> panics inside \<^verbatim>\<open>authApi\<close>, whatever the
  follow relation holds.\<close>

lemma unfollowProfile_valid_token_panics:
  assumes "elem_at (Split (Header_Get c ''Authorization'') CHR '' '') 1 = Inr t"
    and "ParseWithClaims P t (keyFunc P) = (tok, None)"
  shows "unfollowProfile P conn c = Inl NilDereference"
  using authApi_no_error [OF assms]
  by (simp add: unfollowProfile_def)

text \<open>So no call of \<^verbatim>\<open>unfollowProfile\<close> is silent: whenever it returns, it has written the 401
  and the 402 body and aborted, and the database is the one it was given.\<close>

lemma unfollowProfile_never_silent:
  assumes "unfollowProfile P conn c = Inr (c', db')"
  shows "conn = Inr db' \<and>
         (\<exists>tok e. c' = Abort (JSON 402 (JObj [(''error'', JStr ''Unathorized'')])
                    (JSON 200 (JObj [(''token'', Token_json tok)])
                       (JSON 401 (JObj [(''error'', JStr (Error e)),
                                        (''message'', JStr ''not authorized'')]) c))))"
proof (cases "authApi P c")
  case (Inl p)
  with assms show ?thesis
    by (simp add: unfollowProfile_def)
next
  case (Inr r)
  then obtain tok c1 where auth: "authApi P c = Inr (tok, c1)"
    by (cases r) auto
  from authApi_never_accepts [OF auth] obtain e
    where c1: "c1 = JSON 401 (JObj [(''error'', JStr (Error e)), (''message'', JStr ''not authorized'')]) c"
    by blast
  from assms auth c1 show ?thesis
    by (cases conn) (auto simp: unfollowProfile_def getDB_def Let_def count_query_unbound)
qed

lemma garbage_parse:
  "ParseWithClaims P ''garbage'' kf =
     (None, Some (NewValidationError ''token contains an invalid number of segments'' ValidationErrorMalformed))"
  by (simp add: ParseWithClaims_def ParseUnverified_def)

lemma bearer_garbage_split:
  "elem_at (Split (Header_Get (request [(''Authorization'', ''Bearer garbage'')] ps b) ''Authorization'') CHR '' '') 1
     = Inr ''garbage''"
  by (simp add: Header_Get_def request_def elem_at_def)

text \<open>
  C4. A request with an invalid bearer token to a protected mutation route must be answered
  unauthorized. On the code this fails for the follow route: the header \<^verbatim>\<open>Bearer garbage\<close>
  carries a token that does not parse, and \<^verbatim>\<open>followProfile\<close> answers 200 with \<^verbatim>\<open>pong\<close>, as do
  the other stub handlers, which never look at the token.
\<close>

theorem followProfile_ignores_token:
  "ParseWithClaims demo ''garbage'' (keyFunc demo) =
     (None, Some \<lparr>Inner = None, errorText = ''token contains an invalid number of segments'',
                  Errors = ValidationErrorMalformed\<rparr>) \<and>
   handle demo demo_db POST_profiles_username_follow
     (request [(''Authorization'', ''Bearer garbage'')] [(''username'', ''bob'')] None) =
     Inr (\<lparr>ReqHeader = [(''Authorization'', ''Bearer garbage'')], Params = [(''username'', ''bob'')],
           ReqBody = None, Keys = [],
           Writes = [(200, JObj [(''message'', JStr ''pong'')])],
           Aborted = False\<rparr>, demo_db) \<and>
   wire_status \<lparr>ReqHeader = [(''Authorization'', ''Bearer garbage'')], Params = [(''username'', ''bob'')],
           ReqBody = None, Keys = [],
           Writes = [(200, JObj [(''message'', JStr ''pong'')])],
           Aborted = False\<rparr> = 200"
  by code_simp

text \<open>
  C4, as the code has it. Take a request whose \<^verbatim>\<open>Authorization\<close> value has a second part that
  fails validation, on any route registered under POST, PUT or DELETE other than the login.
  On \<^verbatim>\<open>DELETE profiles/:username/follow\<close>, the one route whose handler calls \<^verbatim>\<open>authApi\<close>, the
  status is 401 and the first body is the \<^verbatim>\<open>not authorized\<close> one. On every other route the
  handler does not read the token and answers 200 with \<^verbatim>\<open>pong\<close>. On all of them no key is
  attached to the context and the database, with its \<^verbatim>\<open>followers\<close> and \<^verbatim>\<open>favoriters\<close> tables,
  is left as it was.
\<close>

theorem mutation_routes_invalid_token:
  assumes "elem_at (Split (Header_Get c ''Authorization'') CHR '' '') 1 = Inr t"
    and "ParseWithClaims P t (keyFunc P) = (tok, Some e)"
    and "Writes c = []"
  shows "\<exists>c'. handle P db r c = Inr (c', db) \<and> Keys c' = Keys c \<and>
           (if r = DELETE_profiles_username_follow
            then wire_status c' = 401 \<and>
                 (\<exists>rest. Writes c' = (401, JObj [(''error'', JStr (Error e)),
                                                 (''message'', JStr ''not authorized'')]) # rest)
            else wire_status c' = 200 \<and>
                 (\<exists>key. Writes c' = [(200, JObj [(key, JStr ''pong'')])]))"
proof (cases "r = DELETE_profiles_username_follow")
  case True
  with unfollowProfile_after_error [OF assms(1,2), of db] assms(3) show ?thesis
    by (simp add: wire_status_def JSON_def Abort_def)
next
  case False
  with assms(3) show ?thesis
    by (cases r)
       (simp_all add: wire_status_def JSON_def createArticle_def updateArticle_def deleteArticle_def
          favoriteArticle_def unfavoriteArticle_def createComment_def deleteComment_def
          createUser_def updateUser_def followProfile_def)
qed

theorem mutation_routes_invalid_token_witness:
  "elem_at (Split (Header_Get (request [(''Authorization'', ''Bearer garbage'')] [(''username'', ''bob'')] None)
       ''Authorization'') CHR '' '') 1 = Inr ''garbage'' \<and>
   ParseWithClaims demo ''garbage'' (keyFunc demo) =
     (None, Some (NewValidationError ''token contains an invalid number of segments'' ValidationErrorMalformed)) \<and>
   Writes (request [(''Authorization'', ''Bearer garbage'')] [(''username'', ''bob'')] None) = [] \<and>
   (\<exists>c'. handle demo demo_db DELETE_profiles_username_follow
            (request [(''Authorization'', ''Bearer garbage'')] [(''username'', ''bob'')] None) = Inr (c', demo_db) \<and>
         Keys c' = [] \<and> wire_status c' = 401 \<and>
         (\<exists>rest. Writes c' = (401, JObj [(''error'', JStr ''token contains an invalid number of segments''),
                                         (''message'', JStr ''not authorized'')]) # rest))"
proof -
  let ?c = "request [(''Authorization'', ''Bearer garbage'')] [(''username'', ''bob'')] None"
  have s: "elem_at (Split (Header_Get ?c ''Authorization'') CHR '' '') 1 = Inr ''garbage''"
    by (rule bearer_garbage_split)
  have p: "ParseWithClaims demo ''garbage'' (keyFunc demo) =
     (None, Some (NewValidationError ''token contains an invalid number of segments'' ValidationErrorMalformed))"
    by (rule garbage_parse)
  have w: "Writes ?c = []"
    by (simp add: request_def)
  have e: "Error (NewValidationError ''token contains an invalid number of segments'' ValidationErrorMalformed)
             = ''token contains an invalid number of segments''"
    by (simp add: Error_def NewValidationError_def)
  have k: "Keys ?c = []"
    by (simp add: request_def)
  from mutation_routes_invalid_token [OF s p w, of demo_db DELETE_profiles_username_follow]
  have "\<exists>c'. handle demo demo_db DELETE_profiles_username_follow ?c = Inr (c', demo_db) \<and>
           Keys c' = [] \<and> wire_status c' = 401 \<and>
           (\<exists>rest. Writes c' = (401, JObj [(''error'', JStr ''token contains an invalid number of segments''),
                                           (''message'', JStr ''not authorized'')]) # rest)"
    unfolding e k by simp
  with s p w show ?thesis
    by blast
qed

section \<open>What the rejection says\<close>

text \<open>
  C5. The rejection must not carry the raw validation error. On the code it does: for the
  header \<^verbatim>\<open>Bearer garbage\<close> the parser's error is
  \<^verbatim>\<open>token contains an invalid number of segments\<close>, and that text is the \<^verbatim>\<open>error\<close> field of
  the 401 body.
\<close>

theorem authApi_leaks_validation_error:
  "ParseWithClaims demo ''garbage'' (keyFunc demo) =
     (None, Some \<lparr>Inner = None, errorText = ''token contains an invalid number of segments'',
                  Errors = ValidationErrorMalformed\<rparr>) \<and>
   Error \<lparr>Inner = None, errorText = ''token contains an invalid number of segments'',
          Errors = ValidationErrorMalformed\<rparr> = ''token contains an invalid number of segments'' \<and>
   authApi demo (request [(''Authorization'', ''Bearer garbage'')] [] None) =
     Inr (None, \<lparr>ReqHeader = [(''Authorization'', ''Bearer garbage'')], Params = [], ReqBody = None,
                 Keys = [],
                 Writes = [(401, JObj [(''error'', JStr ''token contains an invalid number of segments''),
                                       (''message'', JStr ''not authorized'')])],
                 Aborted = False\<rparr>)"
  by code_simp

text \<open>
  C5, as the code has it. For every header with a second part whose validation fails, the
  401 body holds the fixed message \<^verbatim>\<open>not authorized\<close> and, under \<^verbatim>\<open>error\<close>, the text of the
  validation error as \<^verbatim>\<open>err.Error()\<close> gives it. Of the signing secret the response carries
  no more than whether the token's signature verifies under it: with any other secret that
  agrees with the configured one on that, the middleware returns the same token and writes
  the same body.
\<close>

theorem authApi_rejection_body:
  assumes "elem_at (Split (Header_Get c ''Authorization'') CHR '' '') 1 = Inr t"
    and "ParseWithClaims P t (keyFunc P) = (tok, Some e)"
    and "signature_verifies P t k = signature_verifies P t (JWT_SECRET P)"
  shows "authApi P c = Inr (tok, JSON 401 (JObj [(''error'', JStr (Error e)),
                                                 (''message'', JStr ''not authorized'')]) c) \<and>
         authApi (P\<lparr>JWT_SECRET := k\<rparr>) c =
           Inr (tok, JSON 401 (JObj [(''error'', JStr (Error e)),
                                     (''message'', JStr ''not authorized'')]) c)"
  using authApi_error [OF assms(1,2)] authApi_secret [OF assms(1,3)]
  by simp

theorem authApi_rejection_body_witness:
  "elem_at (Split (Header_Get (request [(''Authorization'', ''Bearer HS256.1,1900.9999'')] [] None)
       ''Authorization'') CHR '' '') 1 = Inr ''HS256.1,1900.9999'' \<and>
   signature_verifies demo ''HS256.1,1900.9999'' ''other'' =
     signature_verifies demo ''HS256.1,1900.9999'' (JWT_SECRET demo) \<and>
   (\<exists>tok. ParseWithClaims demo ''HS256.1,1900.9999'' (keyFunc demo) =
            (tok, Some \<lparr>Inner = Some ''signature is invalid'', errorText = [],
                         Errors = ValidationErrorSignatureInvalid\<rparr>) \<and>
      authApi demo (request [(''Authorization'', ''Bearer HS256.1,1900.9999'')] [] None) =
        Inr (tok, JSON 401 (JObj [(''error'', JStr ''signature is invalid''),
                                  (''message'', JStr ''not authorized'')])
                    (request [(''Authorization'', ''Bearer HS256.1,1900.9999'')] [] None)) \<and>
      authApi (demo\<lparr>JWT_SECRET := ''other''\<rparr>)
          (request [(''Authorization'', ''Bearer HS256.1,1900.9999'')] [] None) =
        Inr (tok, JSON 401 (JObj [(''error'', JStr ''signature is invalid''),
                                  (''message'', JStr ''not authorized'')])
                    (request [(''Authorization'', ''Bearer HS256.1,1900.9999'')] [] None)))"
proof -
  let ?c = "request [(''Authorization'', ''Bearer HS256.1,1900.9999'')] [] None"
  let ?tok = "\<lparr>Raw = ''HS256.1,1900.9999'', Method = ''HS256'',
             Header = Some [(''alg'', JStr ''HS256''), (''typ'', JStr ''JWT'')],
             Claims = Some (zero_MyCustomClaims\<lparr>ExpiresAt := 1900, UserId := 1\<rparr>),
             Signature = ''9999'', Valid = False\<rparr>"
  let ?e = "\<lparr>Inner = Some ''signature is invalid'', errorText = [],
             Errors = ValidationErrorSignatureInvalid\<rparr>"
  have s: "elem_at (Split (Header_Get ?c ''Authorization'') CHR '' '') 1 = Inr ''HS256.1,1900.9999''"
    by code_simp
  have p: "ParseWithClaims demo ''HS256.1,1900.9999'' (keyFunc demo) = (Some ?tok, Some ?e)"
    by code_simp
  have a: "signature_verifies demo ''HS256.1,1900.9999'' ''other'' =
           signature_verifies demo ''HS256.1,1900.9999'' (JWT_SECRET demo)"
    by code_simp
  have e: "Error ?e = ''signature is invalid''"
    by (simp add: Error_def)
  from authApi_rejection_body [OF s p a] s p a show ?thesis
    unfolding e by blast
qed

section \<open>Algorithm pinning\<close>

lemma ParseUnverified_decoded:
  assumes "length (Split t CHR ''.'') = 3"
    and "DecodeSegment P (Split t CHR ''.'' ! 0) = Inr headerBytes"
    and "Unmarshal_header P headerBytes = Inr header"
    and "map_of header ''alg'' = Some (JStr alg)"
    and "DecodeSegment P (Split t CHR ''.'' ! 1) = Inr claimBytes"
    and "Unmarshal_claims P claimBytes = Inr claims"
    and "tok = \<lparr>Raw = t, Method = GetSigningMethod alg, Header = Some header, Claims = Some claims,
                Signature = [], Valid = False\<rparr>"
  shows "ParseUnverified P t =
           (if alg \<in> set registered_methods then Inr (tok, Split t CHR ''.'')
            else Inl (Some tok, NewValidationError ''signing method (alg) is unavailable.''
                                  ValidationErrorUnverifiable))"
  using assms
  by (auto simp: ParseUnverified_def Let_def GetSigningMethod_def registered_methods_def)

text \<open>
  C6. A token whose header names an algorithm other than HS256, with a header and a payload
  that decode, never validates: the parse returns the token unmarked together with an
  error flagged unverifiable, whose text is the key function's
  \<^verbatim>\<open>Unexpected signing method: alg\<close> when the algorithm is one jwt-go knows and the parser's
  \<^verbatim>\<open>signing method (alg) is unavailable.\<close> otherwise; \<^verbatim>\<open>authApi\<close> answers 401.
\<close>

theorem wrong_algorithm_rejected:
  assumes "elem_at (Split (Header_Get c ''Authorization'') CHR '' '') 1 = Inr t"
    and "length (Split t CHR ''.'') = 3"
    and "DecodeSegment P (Split t CHR ''.'' ! 0) = Inr headerBytes"
    and "Unmarshal_header P headerBytes = Inr header"
    and "map_of header ''alg'' = Some (JStr alg)"
    and "alg \<noteq> ''HS256''"
    and "DecodeSegment P (Split t CHR ''.'' ! 1) = Inr claimBytes"
    and "Unmarshal_claims P claimBytes = Inr claims"
  shows "\<exists>tok e. ParseWithClaims P t (keyFunc P) = (Some tok, Some e) \<and>
           \<not> Valid tok \<and>
           Errors e = ValidationErrorUnverifiable \<and>
           Error e = (if alg \<in> set registered_methods then ''Unexpected signing method: '' @ alg
                      else ''signing method (alg) is unavailable.'') \<and>
           authApi P c = Inr (Some tok, JSON 401 (JObj [(''error'', JStr (Error e)),
                                                        (''message'', JStr ''not authorized'')]) c)"
proof -
  define tok where "tok = \<lparr>Raw = t, Method = GetSigningMethod alg, Header = Some header, Claims = Some claims,
                Signature = [], Valid = False\<rparr>"
  note pu = ParseUnverified_decoded [OF assms(2,3,4,5,7,8) tok_def]
  define e where "e = (if alg \<in> set registered_methods
      then \<lparr>Inner = Some (''Unexpected signing method: '' @ alg), errorText = [],
            Errors = ValidationErrorUnverifiable\<rparr>
      else NewValidationError ''signing method (alg) is unavailable.'' ValidationErrorUnverifiable)"
  have kf: "alg \<in> set registered_methods \<Longrightarrow> keyFunc P tok = Inl (''Unexpected signing method: '' @ alg)"
    using assms(5,6)
    by (auto simp: keyFunc_def tok_def GetSigningMethod_def fmt_v_def Header_index_def registered_methods_def)
  have p: "ParseWithClaims P t (keyFunc P) = (Some tok, Some e)"
    using pu kf by (auto simp: ParseWithClaims_def e_def)
  have v: "\<not> Valid tok"
    by (simp add: tok_def)
  have fl: "Errors e = ValidationErrorUnverifiable"
    by (simp add: e_def NewValidationError_def)
  have tx: "Error e = (if alg \<in> set registered_methods then ''Unexpected signing method: '' @ alg
                      else ''signing method (alg) is unavailable.'')"
    by (simp add: e_def Error_def NewValidationError_def)
  from authApi_error [OF assms(1) p] p v fl tx show ?thesis
    by blast
qed

theorem wrong_algorithm_rejected_witness:
  "\<exists>tok e. ParseWithClaims demo ''RS256.1,1900.1561'' (keyFunc demo) = (Some tok, Some e) \<and>
           \<not> Valid tok \<and>
           Errors e = ValidationErrorUnverifiable \<and>
           Error e = ''Unexpected signing method: RS256'' \<and>
           authApi demo (request [(''Authorization'', ''Bearer RS256.1,1900.1561'')] [] None) =
             Inr (Some tok, JSON 401 (JObj [(''error'', JStr (Error e)),
                                            (''message'', JStr ''not authorized'')])
                    (request [(''Authorization'', ''Bearer RS256.1,1900.1561'')] [] None))"
proof -
  let ?c = "request [(''Authorization'', ''Bearer RS256.1,1900.1561'')] [] None"
  let ?t = "''RS256.1,1900.1561''"
  have 1: "elem_at (Split (Header_Get ?c ''Authorization'') CHR '' '') 1 = Inr ?t"
    by code_simp
  have 2: "length (Split ?t CHR ''.'') = 3"
    by code_simp
  have 3: "DecodeSegment demo (Split ?t CHR ''.'' ! 0) = Inr ''RS256''"
    by code_simp
  have 4: "Unmarshal_header demo ''RS256'' = Inr [(''alg'', JStr ''RS256''), (''typ'', JStr ''JWT'')]"
    by code_simp
  have 5: "map_of [(''alg'', JStr ''RS256''), (''typ'', JStr ''JWT'')] ''alg'' = Some (JStr ''RS256'')"
    by simp
  have 6: "''RS256'' \<noteq> ''HS256''"
    by simp
  have 7: "DecodeSegment demo (Split ?t CHR ''.'' ! 1) = Inr ''1,1900''"
    by code_simp
  have 8: "Unmarshal_claims demo ''1,1900'' = Inr (zero_MyCustomClaims\<lparr>ExpiresAt := 1900, UserId := 1\<rparr>)"
    by code_simp
  have r: "''RS256'' \<in> set registered_methods"
    by (simp add: registered_methods_def)
  show ?thesis
    using wrong_algorithm_rejected [OF 1 2 3 4 5 6 7 8] r by simp
qed

section \<open>Unfollow and the profile\<close>

text \<open>
  C7. Unfollowing a user one does not follow must succeed silently. On the code it does
  not: bob (id 2) does not follow alice (id 1); his freshly issued token validates for user
  2, and \<^verbatim>\<open>unfollowProfile\<close> panics inside \<^verbatim>\<open>authApi\<close>, by the test \<^verbatim>\<open>err == nil\<close> that also breaks
  the round trip of C2.
\<close>

theorem unfollowProfile_valid_caller_panics:
  "\<not> follow_exists demo_db 2 1 \<and>
   CreateToken demo 2 = Inr ''HS256.2,1900.1562'' \<and>
   ParseWithClaims demo ''HS256.2,1900.1562'' (keyFunc demo) =
     (Some \<lparr>Raw = ''HS256.2,1900.1562'', Method = ''HS256'',
             Header = Some [(''alg'', JStr ''HS256''), (''typ'', JStr ''JWT'')],
             Claims = Some (zero_MyCustomClaims\<lparr>ExpiresAt := 1900, UserId := 2\<rparr>),
             Signature = ''1562'', Valid = True\<rparr>, None) \<and>
   unfollowProfile demo (Inr demo_db)
     (request [(''Authorization'', ''Bearer HS256.2,1900.1562'')] [(''username'', ''alice'')] None) =
     Inl NilDereference"
  by code_simp

text \<open>
  C8. The profile of a followed user, rendered for the follower, must say
  \<^verbatim>\<open>following: true\<close>. On the code it does not: alice (id 1) follows bob (id 2), the request
  carries a token that validates for user 1, and bob's profile says \<^verbatim>\<open>following: false\<close>.
\<close>

theorem showProfile_ignores_follow:
  "follow_exists demo_db 1 2 \<and>
   ParseWithClaims demo ''HS256.1,1900.1561'' (keyFunc demo) =
     (Some \<lparr>Raw = ''HS256.1,1900.1561'', Method = ''HS256'',
             Header = Some [(''alg'', JStr ''HS256''), (''typ'', JStr ''JWT'')],
             Claims = Some (zero_MyCustomClaims\<lparr>ExpiresAt := 1900, UserId := 1\<rparr>),
             Signature = ''1561'', Valid = True\<rparr>, None) \<and>
   showProfile demo (Inr demo_db)
     (request [(''Authorization'', ''Bearer HS256.1,1900.1561'')] [(''username'', ''bob'')] None) =
     Inr \<lparr>ReqHeader = [(''Authorization'', ''Bearer HS256.1,1900.1561'')], Params = [(''username'', ''bob'')],
          ReqBody = None, Keys = [],
          Writes = [(200, JObj [(''profile'', JObj [(''username'', JStr ''bob''), (''bio'', JStr []),
                                                   (''image'', JStr []), (''following'', JBool False)])])],
          Aborted = False\<rparr>"
  by code_simp

text \<open>
  C8, as the code has it. \<^verbatim>\<open>showProfile\<close> never reads the viewer or the follow relation:
  for every database and request the profile it renders has \<^verbatim>\<open>following: false\<close>, which is
  the value the claim asks for when no viewer is authenticated.
\<close>

theorem showProfile_following_false:
  "\<exists>user :: User. showProfile P (Inr db) c =
     Inr (JSON 200 (JObj [(''profile'', JObj [(''username'', JStr (User.Username user)),
                                              (''bio'', JStr (User.Bio user)),
                                              (''image'', JStr (User.Image user)),
                                              (''following'', JBool False)])]) c)"
  by (rule exI [of _ "First (tbl_users db) (\<lambda>u. collate_eq P (User.Username u) (Param c ''username'')) zero_User"])
     (simp add: showProfile_def getDB_def Let_def Profile_json_def)

theorem showProfile_following_false_witness:
  "follow_exists demo_db 1 2 \<and>
   (\<exists>user :: User. showProfile demo (Inr demo_db)
       (request [(''Authorization'', ''Bearer HS256.1,1900.1561'')] [(''username'', ''bob'')] None) =
     Inr (JSON 200 (JObj [(''profile'', JObj [(''username'', JStr (User.Username user)),
                                              (''bio'', JStr (User.Bio user)),
                                              (''image'', JStr (User.Image user)),
                                              (''following'', JBool False)])])
            (request [(''Authorization'', ''Bearer HS256.1,1900.1561'')] [(''username'', ''bob'')] None)))"
proof -
  have "follow_exists demo_db 1 2"
    by code_simp
  with showProfile_following_false [of demo demo_db
      "request [(''Authorization'', ''Bearer HS256.1,1900.1561'')] [(''username'', ''bob'')] None"]
  show ?thesis by blast
qed

end
